theory Spec2Isabelle
  imports Main "HOL-Library.Word"
begin

section \<open>The UDS service dispatcher (libs/vr/libpdx\_uds/service\_dispatcher.cpp)\<close>

text \<open>
  A shallow embedding of \<^verbatim>\<open>android::pdx::uds::ServiceDispatcher\<close>. The member
  variables of the class are the fields of the record \<open>dispatcher\<close>; the source writes
  them with a trailing underscore (\<^verbatim>\<open>thread_count_\<close>), which is not a legal name
  here, so the underscore is dropped. The two kernel objects the dispatcher owns (the
  counter of its event fd and the interest list of its epoll instance) are fields of the
  same record. Every member function is a function from the state before to the value
  returned and the state after; what the kernel answers to a system call is an argument.
\<close>

subsection \<open>Error numbers\<close>

text \<open>
  The values of \<^verbatim>\<open>errno\<close> that \<^verbatim>\<open>eventfd\<close>, \<^verbatim>\<open>epoll_create\<close>,
  \<^verbatim>\<open>epoll_ctl\<close> and \<^verbatim>\<open>epoll_wait\<close> can set, and the two the dispatcher returns by
  itself, with their Linux numbers. A failed system call sets a positive number.
\<close>

datatype errno =
  EPERM | ENOENT | EINTR | EBADF | EAGAIN | ENOMEM | EFAULT | EBUSY | EEXIST | EINVAL
  | ENFILE | EMFILE | ENOSPC | ELOOP | ETIMEDOUT

fun errno_val :: "errno \<Rightarrow> int" where
  "errno_val EPERM = 1"
| "errno_val ENOENT = 2"
| "errno_val EINTR = 4"
| "errno_val EBADF = 9"
| "errno_val EAGAIN = 11"
| "errno_val ENOMEM = 12"
| "errno_val EFAULT = 14"
| "errno_val EBUSY = 16"
| "errno_val EEXIST = 17"
| "errno_val EINVAL = 22"
| "errno_val ENFILE = 23"
| "errno_val EMFILE = 24"
| "errno_val ENOSPC = 28"
| "errno_val ELOOP = 40"
| "errno_val ETIMEDOUT = 110"

subsection \<open>Data\<close>

type_synonym ptr = nat
type_synonym fd = int

text \<open>\<^verbatim>\<open>static const int kMaxEventsPerLoop = 128;\<close>\<close>

definition kMaxEventsPerLoop :: nat where
  "kMaxEventsPerLoop = 128"

text \<open>
  Modelled from the spec: \<^verbatim>\<open>Endpoint::kIpcTag\<close> is declared in uds/service\_endpoint.h,
  which is not among the sources. The dispatcher only compares a service's tag with it
  (``rejects services whose handle kind is not the expected one''), so its value is
  immaterial; no proof below unfolds it.
\<close>

definition kIpcTag :: int where
  "kIpcTag = 0x00736674"

text \<open>
  A \<^verbatim>\<open>std::shared_ptr<Service>\<close> as the dispatcher sees it: the address
  \<^verbatim>\<open>service.get()\<close>, the tag \<^verbatim>\<open>service->endpoint()->GetIpcTag()\<close> and the
  descriptor \<^verbatim>\<open>endpoint->epoll_fd()\<close>. Shared pointers are compared by address.
\<close>

record service =
  service_ptr :: ptr
  ipc_tag :: int
  endpoint_epoll_fd :: fd

text \<open>
  \<^verbatim>\<open>thread_count_\<close> counts the threads that are inside the dispatcher, far fewer than
  \<open>2^31\<close>; it is an integer here, without the bound of the C++ \<^verbatim>\<open>int\<close>.

  What a dispatching thread did, in order: a history of the calls to
  \<^verbatim>\<open>ThreadEnter\<close> that incremented the count, to \<^verbatim>\<open>ThreadExit\<close> and to
  \<^verbatim>\<open>service->ReceiveAndDispatch()\<close>. The history is the only field that is not in
  the source; nothing reads it.
\<close>

datatype event = Entered | Exited | Dispatched ptr

record dispatcher =
  this_ptr :: ptr
  event_fd :: fd
  epoll_fd :: fd
  services :: "service list"
  thread_count :: int
  canceled :: bool
  eventfd_counter :: "64 word"
  epoll_interest :: "(fd \<times> ptr) list"
  history :: "event list"

text \<open>
  Modelled from the spec: \<^verbatim>\<open>LocalHandle\<close> (pdx/file\_handle.h) is not among the
  sources. A handle is ``a handle or failure'': it holds a descriptor and tests true
  exactly when the descriptor is not negative; \<^verbatim>\<open>Close\<close> leaves \<open>-1\<close>.
\<close>

definition handle_valid :: "fd \<Rightarrow> bool" where
  "handle_valid h = (0 \<le> h)"

subsection \<open>The kernel\<close>

text \<open>
  \<^verbatim>\<open>epoll_ctl\<close> on an interest list. \<open>fault\<close> is an error the kernel reports for
  reasons outside the dispatcher (no memory, a limit, a descriptor that does not support
  epoll); without one, the call fails with \<^verbatim>\<open>EBADF\<close> on a bad descriptor and with
  \<^verbatim>\<open>EINVAL\<close> when the descriptor is the epoll instance itself, adding fails with
  \<^verbatim>\<open>EEXIST\<close> on a registered descriptor, deleting fails with \<^verbatim>\<open>ENOENT\<close> on an
  unregistered one.
\<close>

datatype epoll_op = EPOLL_CTL_ADD | EPOLL_CTL_DEL

definition epoll_ctl ::
  "errno option \<Rightarrow> fd \<Rightarrow> epoll_op \<Rightarrow> fd \<Rightarrow> ptr \<Rightarrow> (fd \<times> ptr) list \<Rightarrow> errno + (fd \<times> ptr) list"
where
  "epoll_ctl fault epfd opr f p m =
     (case fault of
        Some e \<Rightarrow> Inl e
      | None \<Rightarrow>
          if epfd < 0 \<or> f < 0 then Inl EBADF
          else if f = epfd then Inl EINVAL
          else (case opr of
                  EPOLL_CTL_ADD \<Rightarrow>
                    if map_of m f \<noteq> None then Inl EEXIST else Inr (m @ [(f, p)])
                | EPOLL_CTL_DEL \<Rightarrow>
                    if map_of m f = None then Inl ENOENT
                    else Inr (filter (\<lambda>e. fst e \<noteq> f) m)))"

text \<open>
  What the kernel has for a thread that calls \<^verbatim>\<open>epoll_wait\<close>: an error, or the
  registrations (their \<^verbatim>\<open>data.ptr\<close>) that become ready before the timeout expires.
  \<^verbatim>\<open>epoll_wait\<close> hands over at most \<open>maxevents\<close> of them; with none ready it returns
  0 when the timeout expires and never returns (\<open>None\<close>) when the timeout is negative.
\<close>

datatype kernel_wait = KError errno | KReady "ptr list"

definition epoll_wait :: "nat \<Rightarrow> int \<Rightarrow> kernel_wait \<Rightarrow> (errno + ptr list) option" where
  "epoll_wait maxevents timeout k =
     (case k of
        KError e \<Rightarrow> Some (Inl e)
      | KReady ps \<Rightarrow>
          if ps = [] then (if timeout < 0 then None else Some (Inr []))
          else Some (Inr (take maxevents ps)))"

text \<open>
  The event fd is created with \<^verbatim>\<open>EFD_CLOEXEC | EFD_NONBLOCK\<close>: a write of 1 adds 1 to
  its 64-bit counter (and fails, changing nothing, when the counter is at its maximum
  \<^verbatim>\<open>0xfffffffffffffffe\<close>); a read resets the counter to 0 (and fails when it is 0). The
  descriptor is readable, that is signaled, exactly when the counter is not 0. The
  dispatcher ignores the results of both calls.
\<close>

definition eventfd_write :: "dispatcher \<Rightarrow> dispatcher" where
  "eventfd_write d =
     (if event_fd d < 0 then d
      else if eventfd_counter d \<ge> 0xfffffffffffffffe then d
      else d\<lparr>eventfd_counter := eventfd_counter d + 1\<rparr>)"

definition eventfd_read :: "dispatcher \<Rightarrow> dispatcher" where
  "eventfd_read d = (if event_fd d < 0 then d else d\<lparr>eventfd_counter := 0\<rparr>)"


subsection \<open>Construction\<close>

text \<open>
  The constructor, lines 29 to 55. Its arguments are the address of the new object, the
  results of \<^verbatim>\<open>eventfd\<close> and \<^verbatim>\<open>epoll_create\<close> (a descriptor, or \<open>-1\<close>) and the
  fault of \<^verbatim>\<open>epoll_ctl\<close>. The members start as \<open>fresh\<close> has them.
\<close>

text \<open>
  Modelled from the spec: the initial values of the members are in uds/service\_dispatcher.h,
  which is not among the sources: no service, no active thread, not canceled, two empty
  handles.
\<close>

definition fresh :: "ptr \<Rightarrow> dispatcher" where
  "fresh p = \<lparr>this_ptr = p, event_fd = -1, epoll_fd = -1, services = [], thread_count = 0,
     canceled = False, eventfd_counter = 0, epoll_interest = [], history = []\<rparr>"

definition constructor :: "ptr \<Rightarrow> fd \<Rightarrow> fd \<Rightarrow> errno option \<Rightarrow> dispatcher" where
  "constructor p efd epfd fault =
     (let d1 = (fresh p)\<lparr>event_fd := efd\<rparr> in
      if \<not> handle_valid (event_fd d1) then d1
      else
        let d2 = d1\<lparr>epoll_fd := epfd\<rparr> in
        if \<not> handle_valid (epoll_fd d2) then d2
        else (case epoll_ctl fault (epoll_fd d2) EPOLL_CTL_ADD (event_fd d2) (this_ptr d2)
                     (epoll_interest d2) of
                Inl e \<Rightarrow> d2\<lparr>event_fd := -1, epoll_fd := -1\<rparr>
              | Inr m \<Rightarrow> d2\<lparr>epoll_interest := m\<rparr>))"

text \<open>
  \<^verbatim>\<open>Create\<close>, lines 20 to 27: \<open>None\<close> is the null pointer. (The destructor that
  \<^verbatim>\<open>reset\<close> runs calls \<^verbatim>\<open>SetCanceled(true)\<close> on an object with no thread in it.)
\<close>

definition Create :: "ptr \<Rightarrow> fd \<Rightarrow> fd \<Rightarrow> errno option \<Rightarrow> dispatcher option" where
  "Create p efd epfd fault =
     (let d = constructor p efd epfd fault in
      if \<not> handle_valid (epoll_fd d) \<or> \<not> handle_valid (event_fd d) then None else Some d)"

subsection \<open>Thread accounting\<close>

text \<open>
  Lines 59 to 73; both functions hold the mutex. \<^verbatim>\<open>condition_.notify_one()\<close> changes
  no member: it lets a caller asleep in \<^verbatim>\<open>SetCanceled\<close> test its predicate again.
\<close>

definition ThreadEnter :: "dispatcher \<Rightarrow> int \<times> dispatcher" where
  "ThreadEnter d =
     (if canceled d then (- errno_val EBUSY, d)
      else (0, d\<lparr>thread_count := thread_count d + 1, history := history d @ [Entered]\<rparr>))"

definition ThreadExit :: "dispatcher \<Rightarrow> dispatcher" where
  "ThreadExit d = d\<lparr>thread_count := thread_count d - 1, history := history d @ [Exited]\<rparr>"

subsection \<open>The registry\<close>

definition AddService :: "errno option \<Rightarrow> service \<Rightarrow> dispatcher \<Rightarrow> int \<times> dispatcher" where
  "AddService fault s d =
     (if ipc_tag s \<noteq> kIpcTag then (- errno_val EINVAL, d)
      else (case epoll_ctl fault (epoll_fd d) EPOLL_CTL_ADD (endpoint_epoll_fd s) (service_ptr s)
                   (epoll_interest d) of
              Inl e \<Rightarrow> (- errno_val e, d)
            | Inr m \<Rightarrow> (0, d\<lparr>services := services d @ [s], epoll_interest := m\<rparr>)))"

text \<open>\<^verbatim>\<open>services_.remove(service)\<close> erases every element equal to the shared pointer.\<close>

definition RemoveService :: "errno option \<Rightarrow> service \<Rightarrow> dispatcher \<Rightarrow> int \<times> dispatcher" where
  "RemoveService fault s d =
     (if ipc_tag s \<noteq> kIpcTag then (- errno_val EINVAL, d)
      else if thread_count d > 0 then (- errno_val EBUSY, d)
      else (case epoll_ctl fault (epoll_fd d) EPOLL_CTL_DEL (endpoint_epoll_fd s) 0
                   (epoll_interest d) of
              Inl e \<Rightarrow> (- errno_val e, d)
            | Inr m \<Rightarrow>
                (0, d\<lparr>services := filter (\<lambda>x. service_ptr x \<noteq> service_ptr s) (services d),
                       epoll_interest := m\<rparr>)))"

subsection \<open>Dispatching\<close>

text \<open>
  \<^verbatim>\<open>service->ReceiveAndDispatch()\<close> is the service's own code; the dispatcher ignores
  what it returns. The model records the call.
\<close>

definition service_ReceiveAndDispatch :: "ptr \<Rightarrow> dispatcher \<Rightarrow> dispatcher" where
  "service_ReceiveAndDispatch p d = d\<lparr>history := history d @ [Dispatched p]\<rparr>"

text \<open>
  The \<^verbatim>\<open>for\<close> loop over \<^verbatim>\<open>events[0 .. count - 1]\<close>, lines 137 to 148 and 169 to 180.
  \<open>Some r\<close>: the function returned \<open>r\<close> from inside the loop; \<open>None\<close>: the loop ran
  to its end.
\<close>

fun dispatch_events :: "ptr list \<Rightarrow> dispatcher \<Rightarrow> int option \<times> dispatcher" where
  "dispatch_events [] d = (None, d)"
| "dispatch_events (p # ps) d =
     (if p = this_ptr d then (Some (- errno_val EBUSY), ThreadExit d)
      else dispatch_events ps (service_ReceiveAndDispatch p d))"

text \<open>
  \<^verbatim>\<open>ReceiveAndDispatch(int timeout)\<close> from line 127 on, after \<^verbatim>\<open>ThreadEnter\<close> has
  succeeded. \<open>None\<close>: \<^verbatim>\<open>epoll_wait\<close> never returns.
\<close>

definition ReceiveAndDispatch_wait ::
  "int \<Rightarrow> kernel_wait \<Rightarrow> dispatcher \<Rightarrow> (int \<times> dispatcher) option"
where
  "ReceiveAndDispatch_wait timeout k d =
     (case epoll_wait kMaxEventsPerLoop timeout k of
        None \<Rightarrow> None
      | Some (Inl e) \<Rightarrow> Some (- errno_val e, ThreadExit d)
      | Some (Inr evs) \<Rightarrow>
          if int (length evs) \<le> 0 then Some (- errno_val ETIMEDOUT, ThreadExit d)
          else (case dispatch_events evs d of
                  (Some r, d') \<Rightarrow> Some (r, d')
                | (None, d') \<Rightarrow> Some (0, ThreadExit d')))"

definition ReceiveAndDispatch :: "int \<Rightarrow> kernel_wait \<Rightarrow> dispatcher \<Rightarrow> (int \<times> dispatcher) option"
where
  "ReceiveAndDispatch timeout k d =
     (case ThreadEnter d of
        (ret, d1) \<Rightarrow> if ret < 0 then Some (ret, d1) else ReceiveAndDispatch_wait timeout k d1)"

text \<open>\<^verbatim>\<open>int ServiceDispatcher::ReceiveAndDispatch() { return ReceiveAndDispatch(-1); }\<close>\<close>

definition ReceiveAndDispatch0 :: "kernel_wait \<Rightarrow> dispatcher \<Rightarrow> (int \<times> dispatcher) option" where
  "ReceiveAndDispatch0 k d = ReceiveAndDispatch (- 1) k d"

definition IsCanceled :: "dispatcher \<Rightarrow> bool" where
  "IsCanceled d = canceled d"

text \<open>
  One pass through the body of the \<^verbatim>\<open>while\<close> loop of \<^verbatim>\<open>EnterDispatchLoop\<close>, lines
  162 to 180. \<open>Some (Some r, d')\<close>: the function returned \<open>r\<close>; \<open>Some (None, d')\<close>:
  control is back at the loop test; \<open>None\<close>: \<^verbatim>\<open>epoll_wait\<close> never returns. After a
  failed wait \<^verbatim>\<open>count\<close> is \<open>-1\<close> and the \<^verbatim>\<open>for\<close> loop has no iteration.
\<close>

definition EnterDispatchLoop_body ::
  "kernel_wait \<Rightarrow> dispatcher \<Rightarrow> (int option \<times> dispatcher) option"
where
  "EnterDispatchLoop_body k d =
     (case epoll_wait kMaxEventsPerLoop (- 1) k of
        None \<Rightarrow> None
      | Some (Inl e) \<Rightarrow>
          if e \<noteq> EINTR then Some (Some (- errno_val e), ThreadExit d) else Some (None, d)
      | Some (Inr evs) \<Rightarrow> Some (dispatch_events evs d))"

text \<open>
  The \<^verbatim>\<open>while (!IsCanceled())\<close> loop, run by one thread against the successive answers
  of the kernel to its waits. When the answers are used up and the dispatcher is not
  canceled the thread is blocked in \<^verbatim>\<open>epoll_wait\<close>: the function has not returned
  (\<open>None\<close>).
\<close>

fun EnterDispatchLoop_while :: "kernel_wait list \<Rightarrow> dispatcher \<Rightarrow> (int \<times> dispatcher) option"
where
  "EnterDispatchLoop_while [] d = (if IsCanceled d then Some (0, ThreadExit d) else None)"
| "EnterDispatchLoop_while (k # ks) d =
     (if IsCanceled d then Some (0, ThreadExit d)
      else (case EnterDispatchLoop_body k d of
              None \<Rightarrow> None
            | Some (Some r, d') \<Rightarrow> Some (r, d')
            | Some (None, d') \<Rightarrow> EnterDispatchLoop_while ks d'))"

definition EnterDispatchLoop :: "kernel_wait list \<Rightarrow> dispatcher \<Rightarrow> (int \<times> dispatcher) option"
where
  "EnterDispatchLoop ks d =
     (case ThreadEnter d of
        (ret, d1) \<Rightarrow> if ret < 0 then Some (ret, d1) else EnterDispatchLoop_while ks d1)"

subsection \<open>Cancellation\<close>

text \<open>The predicate of \<^verbatim>\<open>condition_.wait\<close>, line 194.\<close>

definition wait_predicate :: "dispatcher \<Rightarrow> bool" where
  "wait_predicate d = (\<not> (canceled d \<and> thread_count d > 0))"

text \<open>
  \<^verbatim>\<open>SetCanceled\<close> from taking the lock to the wait, lines 188 to 192. \<open>True\<close>: the
  caller has written to the event fd and must wait on the condition; \<open>False\<close>: the
  function has returned.
\<close>

definition SetCanceled_lock :: "bool \<Rightarrow> dispatcher \<Rightarrow> bool \<times> dispatcher" where
  "SetCanceled_lock cancel d =
     (let d1 = d\<lparr>canceled := cancel\<rparr> in
      if canceled d1 \<and> thread_count d1 > 0 then (True, eventfd_write d1) else (False, d1))"

text \<open>
  \<^verbatim>\<open>condition_.wait(lock, pred)\<close> is \<^verbatim>\<open>while (!pred()) wait(lock)\<close>: the caller
  sleeps with the mutex released, and goes on, holding the mutex again, once it has been
  woken and finds the predicate true. It then reads the event fd and returns (lines 196
  to 198). What happens in between is up to the other threads, so the second half of
  \<^verbatim>\<open>SetCanceled\<close> is a step of its own in the model of the threads below.
\<close>

subsection \<open>Sequences of registry calls\<close>

datatype registry_call = CallAdd "errno option" service | CallRemove "errno option" service

fun call_registry :: "registry_call \<Rightarrow> dispatcher \<Rightarrow> int \<times> dispatcher" where
  "call_registry (CallAdd fault s) d = AddService fault s d"
| "call_registry (CallRemove fault s) d = RemoveService fault s d"

fun run_registry :: "registry_call list \<Rightarrow> dispatcher \<Rightarrow> int list \<times> dispatcher" where
  "run_registry [] d = ([], d)"
| "run_registry (c # cs) d =
     (case call_registry c d of
        (r, d1) \<Rightarrow> (case run_registry cs d1 of (rs, d2) \<Rightarrow> (r # rs, d2)))"

text \<open>The membership of the registry: the addresses of the services in the list.\<close>

definition members :: "dispatcher \<Rightarrow> ptr set" where
  "members d = service_ptr ` set (services d)"

text \<open>
  The spec's side of the comparison: the set obtained from the calls and their results by
  applying, in order, the adds and the removes that succeeded (returned 0).
\<close>

fun net_membership :: "(registry_call \<times> int) list \<Rightarrow> ptr set \<Rightarrow> ptr set" where
  "net_membership [] M = M"
| "net_membership ((CallAdd fault s, r) # xs) M =
     net_membership xs (if r = 0 then insert (service_ptr s) M else M)"
| "net_membership ((CallRemove fault s, r) # xs) M =
     net_membership xs (if r = 0 then M - {service_ptr s} else M)"

text \<open>
  Registry and multiplexer in lockstep: every service of the registry is registered in
  the epoll instance under its own address, and every registration is the control
  signal's or that of a service of the registry.
\<close>

definition lockstep :: "dispatcher \<Rightarrow> bool" where
  "lockstep d =
     ((\<forall>s \<in> set (services d).
         map_of (epoll_interest d) (endpoint_epoll_fd s) = Some (service_ptr s)) \<and>
      (\<forall>e \<in> set (epoll_interest d).
         e = (event_fd d, this_ptr d) \<or>
         (\<exists>s \<in> set (services d). e = (endpoint_epoll_fd s, service_ptr s))))"

subsection \<open>Threads\<close>

text \<open>
  Several threads call the dispatcher at once. A thread is outside the dispatcher or at
  one of the points where a member function gives way to other threads: blocked in the
  \<^verbatim>\<open>epoll_wait\<close> of \<^verbatim>\<open>ReceiveAndDispatch\<close> (line 129) or of \<^verbatim>\<open>EnterDispatchLoop\<close>
  (line 162), at the loop test (line 161), between the loop and the last
  \<^verbatim>\<open>ThreadExit\<close> (line 183), or asleep in \<^verbatim>\<open>condition_.wait\<close> (line 194). What a
  function does under the mutex is one step. The callbacks of a batch and the
  \<^verbatim>\<open>ThreadExit\<close> that follows them are one step too: a callback does not touch the
  dispatcher, and the kernel's answer is not constrained by the state.
\<close>

datatype pc = Outside | RD_Wait int | EL_Test | EL_Wait | EL_Exit | SC_Wait

datatype api =
  FReceiveAndDispatch | FEnterDispatchLoop | FSetCanceled bool | FAddService | FRemoveService

datatype obs = Returned api int | Running

datatype label =
    CallReceiveAndDispatch nat int
  | CallEnterDispatchLoop nat
  | CallSetCanceled nat bool
  | CallAddService nat "errno option" service
  | CallRemoveService nat "errno option" service
  | WaitReturns nat kernel_wait
  | LoopTest nat
  | LoopExit nat
  | ConditionWakes nat

type_synonym conf = "dispatcher \<times> (nat \<Rightarrow> pc)"

text \<open>
  One step of one thread; \<open>None\<close> when the thread is not at the point the label names.
  With the new configuration comes what the caller sees: the function returned a value
  (0 for the \<^verbatim>\<open>void\<close> \<^verbatim>\<open>SetCanceled\<close>), or it is still running.
\<close>

fun step :: "label \<Rightarrow> conf \<Rightarrow> (conf \<times> obs) option" where
  "step (CallReceiveAndDispatch t timeout) (d, pcs) =
     (if pcs t \<noteq> Outside then None
      else (case ThreadEnter d of
              (ret, d1) \<Rightarrow>
                if ret < 0 then Some ((d1, pcs), Returned FReceiveAndDispatch ret)
                else Some ((d1, pcs(t := RD_Wait timeout)), Running)))"
| "step (CallEnterDispatchLoop t) (d, pcs) =
     (if pcs t \<noteq> Outside then None
      else (case ThreadEnter d of
              (ret, d1) \<Rightarrow>
                if ret < 0 then Some ((d1, pcs), Returned FEnterDispatchLoop ret)
                else Some ((d1, pcs(t := EL_Test)), Running)))"
| "step (CallSetCanceled t cancel) (d, pcs) =
     (if pcs t \<noteq> Outside then None
      else (case SetCanceled_lock cancel d of
              (True, d1) \<Rightarrow> Some ((d1, pcs(t := SC_Wait)), Running)
            | (False, d1) \<Rightarrow> Some ((d1, pcs), Returned (FSetCanceled cancel) 0)))"
| "step (CallAddService t fault s) (d, pcs) =
     (if pcs t \<noteq> Outside then None
      else (case AddService fault s d of (r, d1) \<Rightarrow> Some ((d1, pcs), Returned FAddService r)))"
| "step (CallRemoveService t fault s) (d, pcs) =
     (if pcs t \<noteq> Outside then None
      else (case RemoveService fault s d of
              (r, d1) \<Rightarrow> Some ((d1, pcs), Returned FRemoveService r)))"
| "step (WaitReturns t k) (d, pcs) =
     (case pcs t of
        RD_Wait timeout \<Rightarrow>
          (case ReceiveAndDispatch_wait timeout k d of
             None \<Rightarrow> None
           | Some (r, d1) \<Rightarrow> Some ((d1, pcs(t := Outside)), Returned FReceiveAndDispatch r))
      | EL_Wait \<Rightarrow>
          (case EnterDispatchLoop_body k d of
             None \<Rightarrow> None
           | Some (Some r, d1) \<Rightarrow> Some ((d1, pcs(t := Outside)), Returned FEnterDispatchLoop r)
           | Some (None, d1) \<Rightarrow> Some ((d1, pcs(t := EL_Test)), Running))
      | _ \<Rightarrow> None)"
| "step (LoopTest t) (d, pcs) =
     (if pcs t = EL_Test
      then Some ((d, pcs(t := (if IsCanceled d then EL_Exit else EL_Wait))), Running)
      else None)"
| "step (LoopExit t) (d, pcs) =
     (if pcs t = EL_Exit
      then Some ((ThreadExit d, pcs(t := Outside)), Returned FEnterDispatchLoop 0)
      else None)"
| "step (ConditionWakes t) (d, pcs) =
     (if pcs t = SC_Wait \<and> wait_predicate d
      then Some ((eventfd_read d, pcs(t := Outside)), Returned (FSetCanceled True) 0)
      else None)"

definition all_outside :: "nat \<Rightarrow> pc" where
  "all_outside t = Outside"

text \<open>
  The configurations the dispatcher can be in: those reached from a dispatcher that
  \<^verbatim>\<open>Create\<close> returned, no thread in it, by any steps of any threads.
\<close>

inductive reachable :: "conf \<Rightarrow> bool" where
  created: "Create p efd epfd fault = Some d \<Longrightarrow> reachable (d, all_outside)"
| stepped: "reachable c \<Longrightarrow> step l c = Some (c', ob) \<Longrightarrow> reachable c'"

text \<open>A schedule: the steps of a list of labels, with what each caller saw.\<close>

fun run :: "label list \<Rightarrow> conf \<Rightarrow> (conf \<times> obs list) option" where
  "run [] c = Some (c, [])"
| "run (l # ls) c =
     (case step l c of
        None \<Rightarrow> None
      | Some (c', ob) \<Rightarrow>
          (case run ls c' of None \<Rightarrow> None | Some (c'', obs) \<Rightarrow> Some (c'', ob # obs)))"



text \<open>The threads that \<^verbatim>\<open>ThreadEnter\<close> has counted and \<^verbatim>\<open>ThreadExit\<close> has not.\<close>

fun counted :: "pc \<Rightarrow> bool" where
  "counted Outside = False"
| "counted (RD_Wait timeout) = True"
| "counted EL_Test = True"
| "counted EL_Wait = True"
| "counted EL_Exit = True"
| "counted SC_Wait = False"

definition active :: "(nat \<Rightarrow> pc) \<Rightarrow> nat set" where
  "active pcs = {t. counted (pcs t)}"

text \<open>The accounting invariant: the count is the number of counted threads.\<close>

definition accounted :: "conf \<Rightarrow> bool" where
  "accounted c = (finite (active (snd c)) \<and> thread_count (fst c) = int (card (active (snd c))))"


subsection \<open>Examples\<close>

text \<open>
  A dispatcher as \<^verbatim>\<open>Create\<close> returns it (the object at address 1000, event fd 3,
  epoll fd 4), two services, and schedules run on that dispatcher.
\<close>

definition example_dispatcher :: dispatcher where
  "example_dispatcher = \<lparr>this_ptr = 1000, event_fd = 3, epoll_fd = 4, services = [],
     thread_count = 0, canceled = False, eventfd_counter = 0, epoll_interest = [(3, 1000)],
     history = []\<rparr>"

definition service_a :: service where
  "service_a = \<lparr>service_ptr = 2000, ipc_tag = kIpcTag, endpoint_epoll_fd = 7\<rparr>"

definition service_b :: service where
  "service_b = \<lparr>service_ptr = 3000, ipc_tag = kIpcTag, endpoint_epoll_fd = 8\<rparr>"

definition created_run :: "label list \<Rightarrow> (conf \<times> obs list) option" where
  "created_run ls =
     (case Create 1000 3 4 None of None \<Rightarrow> None | Some d \<Rightarrow> run ls (d, all_outside))"

text \<open>
  Of the result of a schedule: what the callers saw, and the thread count and the canceled
  flag at the end.
\<close>

definition summary :: "(conf \<times> obs list) option \<Rightarrow> (obs list \<times> int \<times> bool) option" where
  "summary r =
     (case r of
        None \<Rightarrow> None
      | Some (c, obs) \<Rightarrow> Some (obs, thread_count (fst c), canceled (fst c)))"

text \<open>
  One dispatching thread, then a cancellation that has to wait for it; the thread sees
  the control signal and leaves.
\<close>

definition cancel_schedule :: "label list" where
  "cancel_schedule =
     [CallReceiveAndDispatch 1 (- 1), CallSetCanceled 0 True, WaitReturns 1 (KReady [1000])]"

text \<open>
  Two dispatching threads, a cancellation that waits for them, and a second thread that
  clears the flag before the first dispatching thread leaves.
\<close>

definition uncancel_schedule :: "label list" where
  "uncancel_schedule =
     [CallReceiveAndDispatch 1 (- 1), CallEnterDispatchLoop 2, CallSetCanceled 0 True,
      CallSetCanceled 3 False, WaitReturns 1 (KReady [1000]), ConditionWakes 0]"







section \<open>Properties\<close>

subsection \<open>Auxiliary facts\<close>

lemma errno_val_pos: "0 < errno_val e"
  by (cases e) simp_all

lemma errno_val_nonzero [simp]: "errno_val e \<noteq> 0"
  using errno_val_pos [of e] by simp

lemma constructor_cases:
  "constructor p efd epfd fault =
     (if efd < 0 then (fresh p)\<lparr>event_fd := efd\<rparr>
      else if epfd < 0 then (fresh p)\<lparr>event_fd := efd, epoll_fd := epfd\<rparr>
      else if fault \<noteq> None \<or> efd = epfd then (fresh p)\<lparr>event_fd := -1, epoll_fd := -1\<rparr>
      else (fresh p)\<lparr>event_fd := efd, epoll_fd := epfd, epoll_interest := [(efd, p)]\<rparr>)"
  by (simp add: constructor_def Let_def handle_valid_def epoll_ctl_def fresh_def
      split: option.splits)

lemma Create_cases:
  "Create p efd epfd fault =
     (if efd < 0 \<or> epfd < 0 \<or> fault \<noteq> None \<or> efd = epfd then None
      else Some ((fresh p)\<lparr>event_fd := efd, epoll_fd := epfd, epoll_interest := [(efd, p)]\<rparr>))"
  by (simp add: Create_def constructor_cases Let_def handle_valid_def fresh_def)

lemma Create_example: "Create 1000 3 4 None = Some example_dispatcher"
  by (simp add: Create_cases fresh_def example_dispatcher_def)

lemma this_ptr_service_ReceiveAndDispatch [simp]:
  "this_ptr (service_ReceiveAndDispatch p d) = this_ptr d"
  by (simp add: service_ReceiveAndDispatch_def)

text \<open>
  The \<^verbatim>\<open>for\<close> loop in closed form: it dispatches the events before the first control
  signal, and all of them when there is none.
\<close>

lemma dispatch_events_eq:
  "dispatch_events evs d =
     (if this_ptr d \<in> set evs
      then (Some (- errno_val EBUSY),
            ThreadExit (d\<lparr>history := history d @
              map Dispatched (takeWhile (\<lambda>p. p \<noteq> this_ptr d) evs)\<rparr>))
      else (None, d\<lparr>history := history d @ map Dispatched evs\<rparr>))"
proof (induction evs arbitrary: d)
  case Nil
  then show ?case by simp
next
  case (Cons p ps)
  show ?case
  proof (cases "p = this_ptr d")
    case True
    then show ?thesis by simp
  next
    case False
    then show ?thesis
      by (simp add: Cons.IH) (simp add: service_ReceiveAndDispatch_def)
  qed
qed

lemma takeWhile_first:
  "i < length xs \<Longrightarrow> xs ! i = a \<Longrightarrow> a \<notin> set (take i xs) \<Longrightarrow>
   takeWhile (\<lambda>p. p \<noteq> a) xs = take i xs"
proof (induction xs arbitrary: i)
  case Nil
  then show ?case by simp
next
  case (Cons x xs)
  then show ?case by (cases i) auto
qed

lemma dispatch_events_count:
  "dispatch_events evs d = (ro, d') \<Longrightarrow>
   thread_count d' = (if ro = None then thread_count d else thread_count d - 1)"
  by (auto simp: dispatch_events_eq ThreadExit_def split: if_splits)

lemma ReceiveAndDispatch_wait_count:
  "ReceiveAndDispatch_wait timeout k d = Some (r, d') \<Longrightarrow> thread_count d' = thread_count d - 1"
  by (auto simp: ReceiveAndDispatch_wait_def ThreadExit_def
      split: option.splits sum.splits if_splits prod.splits dest: dispatch_events_count)

lemma EnterDispatchLoop_body_count:
  "EnterDispatchLoop_body k d = Some (ro, d') \<Longrightarrow>
   thread_count d' = (if ro = None then thread_count d else thread_count d - 1)"
  by (auto simp: EnterDispatchLoop_body_def ThreadExit_def
      split: option.splits sum.splits if_splits dest: dispatch_events_count)

lemma SetCanceled_lock_count:
  "SetCanceled_lock cancel d = (b, d') \<Longrightarrow> thread_count d' = thread_count d"
  by (auto simp: SetCanceled_lock_def eventfd_write_def Let_def split: if_splits)

lemma AddService_failure: "AddService fault s d = (r, d') \<Longrightarrow> r \<noteq> 0 \<Longrightarrow> d' = d"
  by (auto simp: AddService_def split: if_splits sum.splits)

lemma RemoveService_failure: "RemoveService fault s d = (r, d') \<Longrightarrow> r \<noteq> 0 \<Longrightarrow> d' = d"
  by (auto simp: RemoveService_def split: if_splits sum.splits)

lemma AddService_count: "AddService fault s d = (r, d') \<Longrightarrow> thread_count d' = thread_count d"
  by (auto simp: AddService_def split: if_splits sum.splits)

lemma RemoveService_count:
  "RemoveService fault s d = (r, d') \<Longrightarrow> thread_count d' = thread_count d"
  by (auto simp: RemoveService_def split: if_splits sum.splits)

lemma eventfd_read_count [simp]: "thread_count (eventfd_read d) = thread_count d"
  by (simp add: eventfd_read_def)

lemma members_add:
  "AddService fault s d = (r, d') \<Longrightarrow>
   members d' = (if r = 0 then insert (service_ptr s) (members d) else members d)"
  by (auto simp: AddService_def members_def split: if_splits sum.splits)

lemma members_remove:
  "RemoveService fault s d = (r, d') \<Longrightarrow>
   members d' = (if r = 0 then members d - {service_ptr s} else members d)"
  by (auto simp: RemoveService_def members_def split: if_splits sum.splits)

lemma run_registry_members:
  "run_registry cs d = (rs, d') \<Longrightarrow> members d' = net_membership (zip cs rs) (members d)"
proof (induction cs arbitrary: d rs)
  case Nil
  then show ?case by simp
next
  case (Cons c cs)
  obtain r d1 where c1: "call_registry c d = (r, d1)" by (cases "call_registry c d")
  obtain rs' d2 where c2: "run_registry cs d1 = (rs', d2)" by (cases "run_registry cs d1")
  from Cons.prems c1 c2 have eq: "rs = r # rs'" "d' = d2" by simp_all
  have ih: "members d2 = net_membership (zip cs rs') (members d1)"
    using Cons.IH [of d1 rs'] c2 eq by simp
  show ?case
  proof (cases c)
    case (CallAdd fault s)
    with c1 have "members d1 = (if r = 0 then insert (service_ptr s) (members d) else members d)"
      by (simp add: members_add)
    with ih eq CallAdd show ?thesis by simp
  next
    case (CallRemove fault s)
    with c1 have "members d1 = (if r = 0 then members d - {service_ptr s} else members d)"
      by (simp add: members_remove)
    with ih eq CallRemove show ?thesis by simp
  qed
qed

lemma EnterDispatchLoop_while_canceled:
  "canceled d \<Longrightarrow> EnterDispatchLoop_while ks d = Some (0, ThreadExit d)"
  by (cases ks) (simp_all add: IsCanceled_def)

lemma EnterDispatchLoop_while_EINTR:
  "EnterDispatchLoop_while (KError EINTR # ks) d = EnterDispatchLoop_while ks d"
  by (cases "canceled d")
    (simp_all add: EnterDispatchLoop_while_canceled EnterDispatchLoop_body_def epoll_wait_def
      IsCanceled_def)

lemma EnterDispatchLoop_while_retries:
  "EnterDispatchLoop_while (replicate n (KError EINTR) @ ks) d = EnterDispatchLoop_while ks d"
  by (induction n) (simp_all add: EnterDispatchLoop_while_EINTR del: EnterDispatchLoop_while.simps)

subsection \<open>The thread count is the number of dispatching threads\<close>

lemma active_upd:
  "active (pcs(t := p)) = (if counted p then insert t (active pcs) else active pcs - {t})"
  by (auto simp: active_def)

lemma accounted_enter:
  assumes "accounted (d, pcs)" and "\<not> counted (pcs t)" and "counted p"
    and "thread_count d' = thread_count d + 1"
  shows "accounted (d', pcs(t := p))"
proof -
  from assms(2) have "t \<notin> active pcs" by (simp add: active_def)
  with assms show ?thesis by (simp add: accounted_def active_upd)
qed

lemma accounted_exit:
  assumes "accounted (d, pcs)" and "counted (pcs t)" and "\<not> counted p"
    and "thread_count d' = thread_count d - 1"
  shows "accounted (d', pcs(t := p))"
proof -
  from assms(2) have t: "t \<in> active pcs" by (simp add: active_def)
  with assms(1) have "card (active pcs) > 0"
    by (auto simp: accounted_def card_gt_0_iff)
  with assms t show ?thesis
    by (simp add: accounted_def active_upd card_Diff_singleton)
qed

lemma accounted_same:
  assumes "accounted (d, pcs)" and "counted (pcs t) = counted p"
    and "thread_count d' = thread_count d"
  shows "accounted (d', pcs(t := p))"
proof -
  have "active (pcs(t := p)) = active pcs"
    using assms(2) by (auto simp: active_def)
  with assms show ?thesis by (simp add: accounted_def)
qed

lemma accounted_state:
  assumes "accounted (d, pcs)" and "thread_count d' = thread_count d"
  shows "accounted (d', pcs)"
  using assms by (simp add: accounted_def)

lemma step_accounted:
  assumes "accounted c" and "step l c = Some (c', ob)"
  shows "accounted c'"
proof -
  obtain d pcs where c: "c = (d, pcs)" by (cases c)
  show ?thesis
  proof (cases l)
    case (CallReceiveAndDispatch t timeout)
    with assms c show ?thesis
      by (auto simp: ThreadEnter_def split: if_splits intro: accounted_enter)
  next
    case (CallEnterDispatchLoop t)
    with assms c show ?thesis
      by (auto simp: ThreadEnter_def split: if_splits intro: accounted_enter)
  next
    case (CallSetCanceled t cancel)
    with assms c show ?thesis
      by (auto split: if_splits prod.splits bool.splits
          dest!: SetCanceled_lock_count intro: accounted_same accounted_state)
  next
    case (CallAddService t fault s)
    with assms c show ?thesis
      by (auto split: if_splits prod.splits dest!: AddService_count intro: accounted_state)
  next
    case (CallRemoveService t fault s)
    with assms c show ?thesis
      by (auto split: if_splits prod.splits dest!: RemoveService_count intro: accounted_state)
  next
    case (WaitReturns t k)
    with assms c show ?thesis
      by (auto split: pc.splits option.splits prod.splits
          dest!: ReceiveAndDispatch_wait_count EnterDispatchLoop_body_count
          intro: accounted_exit accounted_same)
  next
    case (LoopTest t)
    with assms c show ?thesis
      by (auto split: if_splits intro: accounted_same)
  next
    case (LoopExit t)
    with assms c show ?thesis
      by (auto simp: ThreadExit_def split: if_splits intro: accounted_exit)
  next
    case (ConditionWakes t)
    with assms c show ?thesis
      by (auto split: if_splits intro: accounted_same)
  qed
qed

lemma created_accounted: "Create p efd epfd fault = Some d \<Longrightarrow> accounted (d, all_outside)"
  by (auto simp: Create_cases fresh_def accounted_def active_def all_outside_def
      split: if_splits)

lemma reachable_accounted: "reachable c \<Longrightarrow> accounted c"
  by (induction rule: reachable.induct) (auto intro: created_accounted step_accounted)

lemma reachable_count_nonneg: "reachable c \<Longrightarrow> 0 \<le> thread_count (fst c)"
  by (drule reachable_accounted) (simp add: accounted_def)

lemma run_reachable: "reachable c \<Longrightarrow> run ls c = Some (c', obs) \<Longrightarrow> reachable c'"
proof (induction ls arbitrary: c obs)
  case Nil
  then show ?case by simp
next
  case (Cons l ls)
  from Cons.prems(2) obtain c1 ob obs' where
    s: "step l c = Some (c1, ob)" and r: "run ls c1 = Some (c', obs')"
    by (auto split: option.splits)
  from Cons.prems(1) s have "reachable c1" by (rule reachable.stepped)
  from Cons.IH [OF this r] show ?case .
qed

lemma created_run_reachable: "created_run ls = Some (c, obs) \<Longrightarrow> reachable c"
  by (auto simp: created_run_def Create_example
      intro: run_reachable [OF reachable.created [OF Create_example]])

lemma SetCanceled_true_return:
  assumes "step l (d, pcs) = Some ((d', pcs'), Returned (FSetCanceled True) r)"
  shows "\<not> canceled d' \<or> thread_count d' \<le> 0"
proof (cases l)
  case (CallSetCanceled t cancel)
  with assms show ?thesis
    by (auto simp: SetCanceled_lock_def Let_def split: if_splits)
next
  case (ConditionWakes t)
  with assms show ?thesis
    by (auto simp: wait_predicate_def eventfd_read_def split: if_splits)
qed (use assms in \<open>auto split: if_splits prod.splits pc.splits option.splits\<close>)

text \<open>
  While a thread is between its \<^verbatim>\<open>ThreadEnter\<close> and its \<^verbatim>\<open>ThreadExit\<close>, every
  \<^verbatim>\<open>RemoveService\<close> of a service of the right kind returns \<^verbatim>\<open>-EBUSY\<close> and changes
  nothing.
\<close>

lemma busy_while_dispatching:
  assumes "reachable (d, pcs)" and "counted (pcs u)" and "pcs t = Outside"
    and "ipc_tag s = kIpcTag"
  shows "step (CallRemoveService t fault s) (d, pcs) =
     Some ((d, pcs), Returned FRemoveService (- errno_val EBUSY))"
proof -
  from assms(1) have acc: "accounted (d, pcs)" by (rule reachable_accounted)
  from assms(2) have "u \<in> active pcs" by (simp add: active_def)
  with acc have "0 < card (active pcs)" by (auto simp: accounted_def card_gt_0_iff)
  with acc have "0 < thread_count d" by (simp add: accounted_def)
  with assms(3,4) show ?thesis by (simp add: RemoveService_def)
qed

subsection \<open>The control signal is signaled only during a cancellation\<close>










subsection \<open>Schedules in which no thread enters\<close>



subsection \<open>Evaluating schedules\<close>

lemmas schedule_simps =
  created_run_def Create_example example_dispatcher_def summary_def ThreadEnter_def
  ThreadExit_def SetCanceled_lock_def eventfd_write_def eventfd_read_def wait_predicate_def
  ReceiveAndDispatch_wait_def EnterDispatchLoop_body_def epoll_wait_def kMaxEventsPerLoop_def
  IsCanceled_def all_outside_def Let_def


subsection \<open>The claims\<close>

text \<open>
  Claim C1, as amended. In every reachable configuration the thread count is at least 0.
  When a call of \<^verbatim>\<open>SetCanceled(true)\<close> returns, the count is at least 0, and it is
  exactly 0 if the dispatcher is still canceled at that moment; the wait also ends when
  another thread has cleared the flag, and then the count need not be 0.
\<close>

theorem thread_count_nonneg_and_zero_if_still_canceled:
  assumes "reachable c"
  shows "0 \<le> thread_count (fst c) \<and>
         (\<forall>l c' r. step l c = Some (c', Returned (FSetCanceled True) r) \<longrightarrow>
            0 \<le> thread_count (fst c') \<and>
            (canceled (fst c') \<longrightarrow> thread_count (fst c') = 0))"
proof (intro conjI allI impI)
  show "0 \<le> thread_count (fst c)" using assms by (rule reachable_count_nonneg)
next
  fix l c' r
  assume s: "step l c = Some (c', Returned (FSetCanceled True) r)"
  with assms have "reachable c'" by (rule reachable.stepped)
  then show nn: "0 \<le> thread_count (fst c')" by (rule reachable_count_nonneg)
  assume "canceled (fst c')"
  with SetCanceled_true_return [of l "fst c" "snd c" "fst c'" "snd c'" r] s nn
  show "thread_count (fst c') = 0" by simp
qed

theorem thread_count_nonneg_and_zero_if_still_canceled_witness:
  "created_run cancel_schedule \<noteq> None \<and>
   reachable (fst (the (created_run cancel_schedule))) \<and>
   summary (created_run (cancel_schedule @ [ConditionWakes 0])) =
     Some ([Running, Running, Returned FReceiveAndDispatch (- 16),
            Returned (FSetCanceled True) 0], 0, True)"
proof -
  obtain c obs where r: "created_run cancel_schedule = Some (c, obs)"
    by (simp add: schedule_simps cancel_schedule_def)
  then have reach: "reachable c" by (rule created_run_reachable)
  have last: "summary (created_run (cancel_schedule @ [ConditionWakes 0])) =
     Some ([Running, Running, Returned FReceiveAndDispatch (- 16),
            Returned (FSetCanceled True) 0], 0, True)"
    by (simp add: schedule_simps cancel_schedule_def)
  from thread_count_nonneg_and_zero_if_still_canceled [OF reach] r reach last
  show ?thesis by simp
qed

text \<open>
  Claim C1 as stated fails: in this schedule thread 0 calls \<^verbatim>\<open>SetCanceled(true)\<close>
  while threads 1 and 2 dispatch, thread 3 calls \<^verbatim>\<open>SetCanceled(false)\<close>, thread 1
  leaves, and the call of thread 0 returns with one thread still counted.
\<close>

theorem set_canceled_returns_with_active_thread:
  "summary (created_run uncancel_schedule) =
     Some ([Running, Running, Running, Returned (FSetCanceled False) 0,
            Returned FReceiveAndDispatch (- 16), Returned (FSetCanceled True) 0], 1, False)"
  by (simp add: schedule_simps uncancel_schedule_def)

text \<open>
  Claim C2. A call of \<^verbatim>\<open>ReceiveAndDispatch(timeout)\<close> on a dispatcher that is not
  canceled increments the thread count. It returns unless the timeout is negative and
  nothing ever becomes ready, and when it returns, on whichever path, the count is what it
  was before the call and the call has made exactly one \<^verbatim>\<open>ThreadExit\<close>, as its last
  action.
\<close>

theorem ReceiveAndDispatch_releases_count:
  assumes "\<not> canceled d"
  shows "(ReceiveAndDispatch timeout k d = None \<longleftrightarrow> timeout < 0 \<and> k = KReady []) \<and>
         (\<forall>r d'. ReceiveAndDispatch timeout k d = Some (r, d') \<longrightarrow>
            thread_count d' = thread_count d \<and>
            (\<exists>ps. d' = d\<lparr>history := history d @ Entered # map Dispatched ps @ [Exited]\<rparr>))"
proof (intro conjI allI impI)
  show "ReceiveAndDispatch timeout k d = None \<longleftrightarrow> timeout < 0 \<and> k = KReady []"
    using assms
    by (auto simp: ReceiveAndDispatch_def ThreadEnter_def ReceiveAndDispatch_wait_def
        epoll_wait_def kMaxEventsPerLoop_def
        split: kernel_wait.splits option.splits sum.splits prod.splits if_splits)
next
  fix r d'
  assume ret: "ReceiveAndDispatch timeout k d = Some (r, d')"
  let ?d1 = "d\<lparr>thread_count := thread_count d + 1, history := history d @ [Entered]\<rparr>"
  from assms ret have w: "ReceiveAndDispatch_wait timeout k ?d1 = Some (r, d')"
    by (simp add: ReceiveAndDispatch_def ThreadEnter_def)
  then obtain res where res: "epoll_wait kMaxEventsPerLoop timeout k = Some res"
    by (auto simp: ReceiveAndDispatch_wait_def split: option.splits)
  have left: "ThreadExit ?d1 = d\<lparr>history := history d @ Entered # map Dispatched [] @ [Exited]\<rparr>"
    by (simp add: ThreadExit_def)
  show ex: "\<exists>ps. d' = d\<lparr>history := history d @ Entered # map Dispatched ps @ [Exited]\<rparr>"
  proof (cases res)
    case (Inl e)
    with w res have "d' = ThreadExit ?d1"
      by (simp add: ReceiveAndDispatch_wait_def)
    with left show ?thesis by blast
  next
    case (Inr evs)
    show ?thesis
    proof (cases "evs = []")
      case True
      with w res Inr have "d' = ThreadExit ?d1"
        by (simp add: ReceiveAndDispatch_wait_def)
      with left show ?thesis by blast
    next
      case False
      show ?thesis
      proof (cases "this_ptr d \<in> set evs")
        case True
        with w res Inr \<open>evs \<noteq> []\<close>
        have "d' = d\<lparr>history := history d @ Entered #
                 map Dispatched (takeWhile (\<lambda>p. p \<noteq> this_ptr d) evs) @ [Exited]\<rparr>"
          by (simp add: ReceiveAndDispatch_wait_def dispatch_events_eq ThreadExit_def)
        then show ?thesis by blast
      next
        case notin: False
        with w res Inr \<open>evs \<noteq> []\<close>
        have "d' = d\<lparr>history := history d @ Entered # map Dispatched evs @ [Exited]\<rparr>"
          by (simp add: ReceiveAndDispatch_wait_def dispatch_events_eq ThreadExit_def)
        then show ?thesis by blast
      qed
    qed
  qed
  then show "thread_count d' = thread_count d" by auto
qed

theorem ReceiveAndDispatch_releases_count_witness:
  "\<not> canceled example_dispatcher \<and>
   ReceiveAndDispatch 0 (KReady [2000, 3000]) example_dispatcher =
     Some (0, example_dispatcher\<lparr>history := [Entered, Dispatched 2000, Dispatched 3000, Exited]\<rparr>) \<and>
   thread_count (example_dispatcher\<lparr>history := [Entered, Dispatched 2000, Dispatched 3000, Exited]\<rparr>) =
     thread_count example_dispatcher"
proof -
  have h: "\<not> canceled example_dispatcher" by (simp add: example_dispatcher_def)
  have e: "ReceiveAndDispatch 0 (KReady [2000, 3000]) example_dispatcher =
     Some (0, example_dispatcher\<lparr>history := [Entered, Dispatched 2000, Dispatched 3000, Exited]\<rparr>)"
    by (simp add: ReceiveAndDispatch_def ThreadEnter_def ReceiveAndDispatch_wait_def
        epoll_wait_def kMaxEventsPerLoop_def service_ReceiveAndDispatch_def ThreadExit_def
        example_dispatcher_def)
  from ReceiveAndDispatch_releases_count [OF h, of 0 "KReady [2000, 3000]"] e h
  show ?thesis by simp
qed

text \<open>
  Claim C3. For a service of the right kind, \<^verbatim>\<open>RemoveService\<close> called while the thread
  count is greater than 0 returns \<^verbatim>\<open>-EBUSY\<close> and leaves the dispatcher, so the registry
  and the registrations of the epoll instance, as it was.
\<close>

theorem RemoveService_busy:
  assumes "ipc_tag s = kIpcTag" and "0 < thread_count d"
  shows "RemoveService fault s d = (- errno_val EBUSY, d)"
  using assms by (simp add: RemoveService_def)

theorem RemoveService_busy_witness:
  "ipc_tag service_a = kIpcTag \<and> 0 < thread_count (snd (ThreadEnter example_dispatcher)) \<and>
   RemoveService None service_a (snd (ThreadEnter example_dispatcher)) =
     (- 16, snd (ThreadEnter example_dispatcher))"
proof -
  have t: "ipc_tag service_a = kIpcTag" by (simp add: service_a_def)
  have c: "0 < thread_count (snd (ThreadEnter example_dispatcher))"
    by (simp add: ThreadEnter_def example_dispatcher_def)
  from RemoveService_busy [OF t c, of None] t c show ?thesis by simp
qed

text \<open>
  Claim C4. In \<^verbatim>\<open>ReceiveAndDispatch\<close>, when the batch that \<^verbatim>\<open>epoll_wait\<close> hands over
  has the control signal at position \<open>i\<close> (its only occurrence up to there: an epoll
  instance reports a registration once in a batch), the call returns \<^verbatim>\<open>-EBUSY\<close>, and
  the callbacks it has invoked are those of the events before position \<open>i\<close>, in order,
  and no other.
\<close>

theorem ReceiveAndDispatch_stops_at_control_signal:
  assumes "\<not> canceled d"
    and "epoll_wait kMaxEventsPerLoop timeout k = Some (Inr batch)"
    and "i < length batch" and "batch ! i = this_ptr d"
    and "this_ptr d \<notin> set (take i batch)"
  shows "ReceiveAndDispatch timeout k d =
     Some (- errno_val EBUSY,
           d\<lparr>history := history d @ Entered # map Dispatched (take i batch) @ [Exited]\<rparr>)"
proof -
  from assms(3,4) have mem: "this_ptr d \<in> set batch"
    using nth_mem by fastforce
  from assms(3) have ne: "batch \<noteq> []" by auto
  have tw: "takeWhile (\<lambda>p. p \<noteq> this_ptr d) batch = take i batch"
    using assms(3-5) by (rule takeWhile_first)
  show ?thesis
    using assms(1,2) mem ne tw
    by (simp add: ReceiveAndDispatch_def ThreadEnter_def ReceiveAndDispatch_wait_def
        dispatch_events_eq ThreadExit_def)
qed

theorem ReceiveAndDispatch_stops_at_control_signal_witness:
  "\<not> canceled example_dispatcher \<and>
   epoll_wait kMaxEventsPerLoop 0 (KReady [2000, 1000, 3000]) = Some (Inr [2000, 1000, 3000]) \<and>
   [2000, 1000, 3000] ! 1 = this_ptr example_dispatcher \<and>
   this_ptr example_dispatcher \<notin> set (take 1 [2000, 1000, 3000]) \<and>
   ReceiveAndDispatch 0 (KReady [2000, 1000, 3000]) example_dispatcher =
     Some (- 16, example_dispatcher\<lparr>history := [Entered, Dispatched 2000, Exited]\<rparr>)"
proof -
  have h1: "\<not> canceled example_dispatcher" by (simp add: example_dispatcher_def)
  have h2: "epoll_wait kMaxEventsPerLoop 0 (KReady [2000, 1000, 3000]) =
      Some (Inr [2000, 1000, 3000])"
    by (simp add: epoll_wait_def kMaxEventsPerLoop_def)
  have h3: "(1::nat) < length [2000, 1000, 3000 :: nat]" by simp
  have h4: "[2000, 1000, 3000] ! 1 = this_ptr example_dispatcher"
    by (simp add: example_dispatcher_def)
  have h5: "this_ptr example_dispatcher \<notin> set (take 1 [2000, 1000, 3000])"
    by (simp add: example_dispatcher_def)
  from ReceiveAndDispatch_stops_at_control_signal [OF h1 h2 h3 h4 h5] h1 h2 h4 h5
  show ?thesis by (simp add: example_dispatcher_def)
qed

text \<open>
  Claim C5. When \<^verbatim>\<open>eventfd\<close> fails, or \<^verbatim>\<open>epoll_create\<close> fails, or the registration of
  the event fd in the epoll instance fails, \<^verbatim>\<open>Create\<close> returns the null pointer. A
  dispatcher that \<^verbatim>\<open>Create\<close> returns has two valid handles, and its event fd is
  registered in its epoll instance under the dispatcher's own address.
\<close>

theorem Create_all_or_nothing:
  "(efd < 0 \<or> epfd < 0 \<or> (\<exists>e. epoll_ctl fault epfd EPOLL_CTL_ADD efd p [] = Inl e)
      \<longrightarrow> Create p efd epfd fault = None) \<and>
   (\<forall>d. Create p efd epfd fault = Some d \<longrightarrow>
      handle_valid (event_fd d) \<and> handle_valid (epoll_fd d) \<and>
      map_of (epoll_interest d) (event_fd d) = Some (this_ptr d))"
  by (auto simp: Create_cases handle_valid_def fresh_def epoll_ctl_def
      split: option.splits if_splits)

theorem Create_all_or_nothing_witness:
  "Create 1000 (- 1) 4 None = None \<and> Create 1000 3 (- 1) None = None \<and>
   epoll_ctl (Some ENOMEM) 4 EPOLL_CTL_ADD 3 1000 [] = Inl ENOMEM \<and>
   Create 1000 3 4 (Some ENOMEM) = None \<and>
   Create 1000 3 4 None = Some example_dispatcher \<and>
   handle_valid (event_fd example_dispatcher) \<and> handle_valid (epoll_fd example_dispatcher) \<and>
   map_of (epoll_interest example_dispatcher) (event_fd example_dispatcher) =
     Some (this_ptr example_dispatcher)"
proof -
  have f: "epoll_ctl (Some ENOMEM) 4 EPOLL_CTL_ADD 3 1000 [] = Inl ENOMEM"
    by (simp add: epoll_ctl_def)
  from Create_all_or_nothing [of "- 1" 4 None 1000] Create_all_or_nothing [of 3 "- 1" None 1000]
    Create_all_or_nothing [of 3 4 "Some ENOMEM" 1000] Create_all_or_nothing [of 3 4 None 1000]
    Create_example f
  show ?thesis by simp
qed

text \<open>
  Claim C6. When the \<^verbatim>\<open>epoll_ctl\<close> of \<^verbatim>\<open>AddService\<close> fails, the call returns the
  negated error and adds nothing to the registry; when the \<^verbatim>\<open>epoll_ctl\<close> of
  \<^verbatim>\<open>RemoveService\<close> fails, the call returns the negated error and keeps the entry.
  Every call of either function that returns an error leaves the registry and the
  registrations as they were, so registry and epoll instance stay in lockstep.
\<close>

theorem registry_failure_keeps_lockstep:
  "(ipc_tag s = kIpcTag \<and>
    epoll_ctl fault (epoll_fd d) EPOLL_CTL_ADD (endpoint_epoll_fd s) (service_ptr s)
      (epoll_interest d) = Inl e
    \<longrightarrow> AddService fault s d = (- errno_val e, d) \<and> - errno_val e \<noteq> 0) \<and>
   (ipc_tag s = kIpcTag \<and> thread_count d \<le> 0 \<and>
    epoll_ctl fault (epoll_fd d) EPOLL_CTL_DEL (endpoint_epoll_fd s) 0 (epoll_interest d) = Inl e
    \<longrightarrow> RemoveService fault s d = (- errno_val e, d) \<and> - errno_val e \<noteq> 0) \<and>
   (\<forall>c r d'. call_registry c d = (r, d') \<and> r \<noteq> 0 \<longrightarrow>
      services d' = services d \<and> epoll_interest d' = epoll_interest d \<and>
      (lockstep d \<longrightarrow> lockstep d'))"
proof (intro conjI impI allI)
  fix c r d'
  assume a: "call_registry c d = (r, d') \<and> r \<noteq> 0"
  then have "d' = d"
    by (cases c) (auto dest: AddService_failure RemoveService_failure)
  then show "services d' = services d" "epoll_interest d' = epoll_interest d"
    "lockstep d \<Longrightarrow> lockstep d'" by simp_all
qed (simp_all add: AddService_def RemoveService_def)

theorem registry_failure_keeps_lockstep_witness:
  "AddService (Some ENOMEM) service_a example_dispatcher = (- 12, example_dispatcher) \<and>
   RemoveService None service_a example_dispatcher = (- 2, example_dispatcher) \<and>
   lockstep example_dispatcher \<and>
   lockstep (snd (call_registry (CallRemove None service_a) example_dispatcher))"
proof -
  have t: "ipc_tag service_a = kIpcTag" by (simp add: service_a_def)
  have c: "thread_count example_dispatcher \<le> 0" by (simp add: example_dispatcher_def)
  have a: "epoll_ctl (Some ENOMEM) (epoll_fd example_dispatcher) EPOLL_CTL_ADD
      (endpoint_epoll_fd service_a) (service_ptr service_a) (epoll_interest example_dispatcher) =
      Inl ENOMEM"
    by (simp add: epoll_ctl_def)
  have r: "epoll_ctl None (epoll_fd example_dispatcher) EPOLL_CTL_DEL
      (endpoint_epoll_fd service_a) 0 (epoll_interest example_dispatcher) = Inl ENOENT"
    by (simp add: epoll_ctl_def example_dispatcher_def service_a_def)
  have l: "lockstep example_dispatcher"
    by (simp add: lockstep_def example_dispatcher_def)
  from registry_failure_keeps_lockstep [of service_a "Some ENOMEM" example_dispatcher ENOMEM]
    registry_failure_keeps_lockstep [of service_a None example_dispatcher ENOENT]
    t c a r l
  show ?thesis by simp
qed

text \<open>
  Claim C7. For every sequence of \<^verbatim>\<open>AddService\<close> and \<^verbatim>\<open>RemoveService\<close> calls on a
  dispatcher with no active thread, the membership of the registry at the end is the set
  obtained from the membership at the start by applying, in order, the adds and the
  removes that returned 0; the thread count is still 0.
\<close>

theorem registry_membership_is_net_of_calls:
  assumes "thread_count d = 0" and "run_registry cs d = (rs, d')"
  shows "members d' = net_membership (zip cs rs) (members d) \<and> thread_count d' = 0"
proof
  from assms(2) show "members d' = net_membership (zip cs rs) (members d)"
    by (rule run_registry_members)
  from assms show "thread_count d' = 0"
  proof (induction cs arbitrary: d rs)
    case Nil
    then show ?case by simp
  next
    case (Cons c cs)
    obtain r d1 where c1: "call_registry c d = (r, d1)" by (cases "call_registry c d")
    obtain rs' d2 where c2: "run_registry cs d1 = (rs', d2)" by (cases "run_registry cs d1")
    from Cons.prems(2) c1 c2 have eq: "d' = d2" by simp
    from c1 Cons.prems(1) have "thread_count d1 = 0"
      by (cases c) (auto dest: AddService_count RemoveService_count)
    from Cons.IH [OF this, of rs'] c2 eq show ?case by simp
  qed
qed

theorem registry_membership_is_net_of_calls_witness:
  "thread_count example_dispatcher = 0 \<and>
   fst (run_registry [CallAdd None service_a, CallAdd None service_b, CallAdd None service_a,
          CallRemove None service_a, CallRemove None service_a] example_dispatcher) =
     [0, 0, - 17, 0, - 2] \<and>
   members (snd (run_registry [CallAdd None service_a, CallAdd None service_b,
          CallAdd None service_a, CallRemove None service_a, CallRemove None service_a]
          example_dispatcher)) = {3000} \<and>
   net_membership (zip [CallAdd None service_a, CallAdd None service_b, CallAdd None service_a,
          CallRemove None service_a, CallRemove None service_a] [0, 0, - 17, 0, - 2])
     (members example_dispatcher) = {3000}"
proof -
  let ?cs = "[CallAdd None service_a, CallAdd None service_b, CallAdd None service_a,
          CallRemove None service_a, CallRemove None service_a]"
  have h: "thread_count example_dispatcher = 0" by (simp add: example_dispatcher_def)
  have rs: "fst (run_registry ?cs example_dispatcher) = [0, 0, - 17, 0, - 2]"
    by (simp add: AddService_def RemoveService_def epoll_ctl_def example_dispatcher_def
        service_a_def service_b_def split: prod.splits)
  have n: "net_membership (zip ?cs [0, 0, - 17, 0, - 2]) (members example_dispatcher) = {3000}"
    by (simp add: members_def example_dispatcher_def service_a_def service_b_def insert_Diff_if)
  have "run_registry ?cs example_dispatcher =
      (fst (run_registry ?cs example_dispatcher), snd (run_registry ?cs example_dispatcher))"
    by simp
  from registry_membership_is_net_of_calls [OF h this] rs n h
  show ?thesis by simp
qed




text \<open>
  Claim C9. In \<^verbatim>\<open>EnterDispatchLoop\<close>, a wait that fails with \<^verbatim>\<open>EINTR\<close> takes the loop
  back to its test with the dispatcher unchanged: nothing is returned, the thread count is
  not decremented, and the loop goes on as if the wait had not been made; among other
  threads, the thread is at the loop test and still counted. A wait that fails with any
  other error makes the function decrement the thread count and return the negated
  error; so after any number of interrupted waits and one that fails otherwise, the call
  has returned that error and has made one \<^verbatim>\<open>ThreadExit\<close>.
\<close>

theorem EnterDispatchLoop_retries_EINTR_only:
  "EnterDispatchLoop_body (KError EINTR) d = Some (None, d) \<and>
   EnterDispatchLoop_while (KError EINTR # ks) d = EnterDispatchLoop_while ks d \<and>
   (pcs t = EL_Wait \<longrightarrow>
      step (WaitReturns t (KError EINTR)) (d, pcs) = Some ((d, pcs(t := EL_Test)), Running) \<and>
      counted ((pcs(t := EL_Test)) t)) \<and>
   (e \<noteq> EINTR \<and> pcs t = EL_Wait \<longrightarrow>
      step (WaitReturns t (KError e)) (d, pcs) =
        Some ((ThreadExit d, pcs(t := Outside)), Returned FEnterDispatchLoop (- errno_val e))) \<and>
   (e \<noteq> EINTR \<and> \<not> canceled d \<longrightarrow>
      EnterDispatchLoop_while (KError e # ks) d = Some (- errno_val e, ThreadExit d) \<and>
      thread_count (ThreadExit d) = thread_count d - 1 \<and>
      EnterDispatchLoop (replicate n (KError EINTR) @ KError e # ks) d =
        Some (- errno_val e, d\<lparr>history := history d @ [Entered, Exited]\<rparr>))"
proof (intro conjI impI)
  show body: "EnterDispatchLoop_body (KError EINTR) d = Some (None, d)"
    by (simp add: EnterDispatchLoop_body_def epoll_wait_def)
  show "EnterDispatchLoop_while (KError EINTR # ks) d = EnterDispatchLoop_while ks d"
    by (rule EnterDispatchLoop_while_EINTR)
  { assume "pcs t = EL_Wait"
    then show "step (WaitReturns t (KError EINTR)) (d, pcs) =
        Some ((d, pcs(t := EL_Test)), Running)"
      by (simp add: body)
    show "counted ((pcs(t := EL_Test)) t)" by simp }
  { assume "e \<noteq> EINTR \<and> pcs t = EL_Wait"
    then show "step (WaitReturns t (KError e)) (d, pcs) =
        Some ((ThreadExit d, pcs(t := Outside)), Returned FEnterDispatchLoop (- errno_val e))"
      by (simp add: EnterDispatchLoop_body_def epoll_wait_def) }
next
  assume a: "e \<noteq> EINTR \<and> \<not> canceled d"
  then have fatal: "\<And>d0. \<not> canceled d0 \<Longrightarrow>
      EnterDispatchLoop_while (KError e # ks) d0 = Some (- errno_val e, ThreadExit d0)"
    by (simp add: EnterDispatchLoop_body_def epoll_wait_def IsCanceled_def)
  from a show "EnterDispatchLoop_while (KError e # ks) d = Some (- errno_val e, ThreadExit d)"
    by (intro fatal) simp
  show "thread_count (ThreadExit d) = thread_count d - 1"
    by (simp add: ThreadExit_def)
  from a show "EnterDispatchLoop (replicate n (KError EINTR) @ KError e # ks) d =
        Some (- errno_val e, d\<lparr>history := history d @ [Entered, Exited]\<rparr>)"
    by (simp add: EnterDispatchLoop_def ThreadEnter_def EnterDispatchLoop_while_retries fatal
        del: EnterDispatchLoop_while.simps)
      (simp add: ThreadExit_def)
qed

theorem EnterDispatchLoop_retries_EINTR_only_witness:
  "EBADF \<noteq> EINTR \<and> \<not> canceled example_dispatcher \<and>
   EnterDispatchLoop [KError EINTR, KError EINTR, KError EBADF, KReady [2000]]
     example_dispatcher =
     Some (- 9, example_dispatcher\<lparr>history := [Entered, Exited]\<rparr>)"
proof -
  have h: "EBADF \<noteq> EINTR \<and> \<not> canceled example_dispatcher"
    by (simp add: example_dispatcher_def)
  have two: "[KError EINTR, KError EINTR, KError EBADF, KReady [2000]] =
      replicate 2 (KError EINTR) @ KError EBADF # [KReady [2000]]"
    by (simp add: numeral_2_eq_2)
  from EnterDispatchLoop_retries_EINTR_only
    [of example_dispatcher "[KReady [2000]]" all_outside 0 EBADF 2] h
  have "EnterDispatchLoop (replicate 2 (KError EINTR) @ KError EBADF # [KReady [2000]])
      example_dispatcher =
      Some (- errno_val EBADF,
        example_dispatcher\<lparr>history := history example_dispatcher @ [Entered, Exited]\<rparr>)"
    by blast
  then have "EnterDispatchLoop [KError EINTR, KError EINTR, KError EBADF, KReady [2000]]
      example_dispatcher =
      Some (- errno_val EBADF,
        example_dispatcher\<lparr>history := history example_dispatcher @ [Entered, Exited]\<rparr>)"
    by (simp only: two)
  with h show ?thesis by (simp add: example_dispatcher_def)
qed

text \<open>
  Claim C10. \<^verbatim>\<open>ReceiveAndDispatch()\<close> returns what \<^verbatim>\<open>ReceiveAndDispatch(-1)\<close> returns
  and leaves the dispatcher in the same state, for every dispatcher and every answer of
  the kernel; its wait has no timeout: on a dispatcher that is not canceled it never
  returns when nothing becomes ready.
\<close>

theorem ReceiveAndDispatch0_is_infinite_timeout:
  "ReceiveAndDispatch0 k d = ReceiveAndDispatch (- 1) k d \<and>
   (\<not> canceled d \<longrightarrow> ReceiveAndDispatch0 (KReady []) d = None)"
  by (simp add: ReceiveAndDispatch0_def ReceiveAndDispatch_def ThreadEnter_def
      ReceiveAndDispatch_wait_def epoll_wait_def)

theorem ReceiveAndDispatch0_is_infinite_timeout_witness:
  "\<not> canceled example_dispatcher \<and>
   ReceiveAndDispatch0 (KReady []) example_dispatcher = None \<and>
   ReceiveAndDispatch0 (KReady [2000]) example_dispatcher =
     ReceiveAndDispatch (- 1) (KReady [2000]) example_dispatcher \<and>
   ReceiveAndDispatch (- 1) (KReady [2000]) example_dispatcher =
     Some (0, example_dispatcher\<lparr>history := [Entered, Dispatched 2000, Exited]\<rparr>)"
proof -
  have h: "\<not> canceled example_dispatcher" by (simp add: example_dispatcher_def)
  have e: "ReceiveAndDispatch (- 1) (KReady [2000]) example_dispatcher =
     Some (0, example_dispatcher\<lparr>history := [Entered, Dispatched 2000, Exited]\<rparr>)"
    by (simp add: ReceiveAndDispatch_def ThreadEnter_def ReceiveAndDispatch_wait_def
        epoll_wait_def kMaxEventsPerLoop_def service_ReceiveAndDispatch_def ThreadExit_def
        example_dispatcher_def)
  from ReceiveAndDispatch0_is_infinite_timeout [of "KReady []" example_dispatcher]
    ReceiveAndDispatch0_is_infinite_timeout [of "KReady [2000]" example_dispatcher] h e
  show ?thesis by simp
qed

end
